theory Spec2Isabelle
  imports Complex_Main
begin

section \<open>Values\<close>

text \<open>
  A cell of a float64 column of the data frame: either NaN (what pandas stores for a
  missing value, and what \<^verbatim>\<open>pd.isna\<close> tests) or a number. The order of
  two numbers is the order of the reals; every comparison with NaN is false. The two
  infinities of a double are left out: no column of a frame of finite prices holds one.
\<close>

datatype float64 = NaN | Fin real

fun isna :: "float64 \<Rightarrow> bool" where
  "isna NaN = True"
| "isna (Fin x) = False"

fun lt :: "float64 \<Rightarrow> float64 \<Rightarrow> bool" where
  "lt (Fin a) (Fin b) = (a < b)"
| "lt a b = False"

fun gt :: "float64 \<Rightarrow> float64 \<Rightarrow> bool" where
  "gt (Fin a) (Fin b) = (a > b)"
| "gt a b = False"

fun le :: "float64 \<Rightarrow> float64 \<Rightarrow> bool" where
  "le (Fin a) (Fin b) = (a \<le> b)"
| "le a b = False"

fun ge :: "float64 \<Rightarrow> float64 \<Rightarrow> bool" where
  "ge (Fin a) (Fin b) = (a \<ge> b)"
| "ge a b = False"

text \<open>The Python values a result tuple of \<^verbatim>\<open>check_signals\<close> holds.\<close>

datatype pyval = PyNone | PyStr string | PyFloat float64

section \<open>The data frame\<close>

text \<open>
  \<^verbatim>\<open>fetch_ohlcv_data\<close> builds the frame with the columns Timestamp, Open, High,
  Low, Close, Volume; \<^verbatim>\<open>calculate_technical_indicators\<close> adds the indicator
  columns. A frame is the list of its rows, oldest first; \<^verbatim>\<open>None\<close> is
  Python's \<^verbatim>\<open>None\<close>.
\<close>

record candle =
  Timestamp :: nat
  Open :: float64
  High :: float64
  Low :: float64
  Close :: float64
  Volume :: float64

record row = candle +
  RSI :: float64
  MACD_line :: float64
  MACD_signal :: float64
  MACD_hist :: float64
  EMA50 :: float64
  EMA200 :: float64
  BB_high :: float64
  BB_low :: float64
  BB_mid :: float64

section \<open>Signal generation\<close>

text \<open>
  \<^verbatim>\<open>check_signals(df)\<close>. The result is the returned tuple, as the list of its
  components. Every column read in the \<^verbatim>\<open>try\<close> block exists in a \<^typ>\<open>row\<close>
  and holds a float, so no statement of the block raises and the
  \<^verbatim>\<open>except\<close> branch is not reached.
\<close>

definition check_signals :: "row list option \<Rightarrow> pyval list" where
  "check_signals df =
     (case df of
        None \<Rightarrow> [PyStr ''NO_SIGNAL'', PyNone, PyNone, PyNone, PyNone, PyNone]
      | Some rows \<Rightarrow>
          if rows = [] \<or> length rows < 2
          then [PyStr ''NO_SIGNAL'', PyNone, PyNone, PyNone, PyNone, PyNone]
          else
            let latest = rows ! (length rows - 1);
                previous = rows ! (length rows - 2);
                current_price = Close latest;
                rsi = RSI latest;
                macd_line = MACD_line latest;
                macd_signal_line = MACD_signal latest;
                ema50 = EMA50 latest;
                ema200 = EMA200 latest
            in
              if isna rsi \<or> isna macd_line \<or> isna macd_signal_line \<or> isna ema50 \<or> isna ema200 \<or>
                 isna (MACD_line previous) \<or> isna (MACD_signal previous) \<or>
                 isna (EMA50 previous) \<or> isna (EMA200 previous)
              then [PyStr ''NO_SIGNAL'', PyFloat current_price, PyFloat rsi, PyFloat macd_line,
                    PyFloat macd_signal_line, PyFloat ema50, PyFloat ema200]
              else
                let macd_bullish_crossover =
                      (gt macd_line macd_signal_line \<and>
                       le (MACD_line previous) (MACD_signal previous));
                    ema_bullish_crossover =
                      (gt ema50 ema200 \<and> le (EMA50 previous) (EMA200 previous))
                in
                  if lt rsi (Fin 30) \<and> macd_bullish_crossover \<and> ema_bullish_crossover
                  then [PyStr ''BUY'', PyFloat current_price, PyFloat rsi, PyFloat macd_line,
                        PyFloat macd_signal_line, PyFloat ema50, PyFloat ema200]
                  else
                    let macd_bearish_crossover =
                          (lt macd_line macd_signal_line \<and>
                           ge (MACD_line previous) (MACD_signal previous));
                        ema_bearish_crossover =
                          (lt ema50 ema200 \<and> ge (EMA50 previous) (EMA200 previous))
                    in
                      if gt rsi (Fin 70) \<and> macd_bearish_crossover \<and> ema_bearish_crossover
                      then [PyStr ''SELL'', PyFloat current_price, PyFloat rsi, PyFloat macd_line,
                            PyFloat macd_signal_line, PyFloat ema50, PyFloat ema200]
                      else [PyStr ''NO_SIGNAL'', PyFloat current_price, PyFloat rsi,
                            PyFloat macd_line, PyFloat macd_signal_line, PyFloat ema50,
                            PyFloat ema200])"

text \<open>
  The caller, \<^verbatim>\<open>run_analysis\<close>, unpacks the result into seven names. Python
  raises \<^verbatim>\<open>ValueError\<close> when the tuple does not have exactly seven components.
  \<open>LibraryError\<close> stands for any exception a call into an imported package raises.
\<close>

datatype py_error = ValueError | LibraryError

fun unpack7 ::
  "pyval list \<Rightarrow> py_error + (pyval \<times> pyval \<times> pyval \<times> pyval \<times> pyval \<times> pyval \<times> pyval)" where
  "unpack7 [signal, current_price, rsi, macd_line, macd_signal_val, ema50, ema200] =
     Inr (signal, current_price, rsi, macd_line, macd_signal_val, ema50, ema200)"
| "unpack7 vs = Inl ValueError"

section \<open>The indicator library\<close>

text \<open>
  \<^verbatim>\<open>calculate_technical_indicators\<close> computes every indicator column by a call of
  the \<^verbatim>\<open>ta\<close> package, which is imported and is no file of the repository. The
  functions of this section are what the spec says those calls compute. They work on a
  column of cells and give a column of the same length.
\<close>

text \<open>
  Modelled from the spec: \<^verbatim>\<open>ta.trend.EMAIndicator(close, window).ema_indicator()\<close>
  is missing. EMA(n) is an exponential moving average with smoothing factor 2/(n+1), seeded
  by the simple average of the first n values and undefined before (index below n-1); it
  is accumulated in series order. An undefined cell of the input (the MACD line is
  undefined while it warms up) gives an undefined cell and is not counted.
\<close>

definition alpha :: "nat \<Rightarrow> real" where
  "alpha n = 2 / (real n + 1)"

datatype ema_state = Warming nat real | Smoothed real

fun ema_step :: "nat \<Rightarrow> ema_state \<Rightarrow> real \<Rightarrow> ema_state" where
  "ema_step n (Warming k s) x =
     (if Suc k = n then Smoothed ((s + x) / real n) else Warming (Suc k) (s + x))"
| "ema_step n (Smoothed e) x = Smoothed (x * alpha n + e * (1 - alpha n))"

fun ema_out :: "ema_state \<Rightarrow> float64" where
  "ema_out (Warming k s) = NaN"
| "ema_out (Smoothed e) = Fin e"

fun ema_scan :: "nat \<Rightarrow> ema_state \<Rightarrow> float64 list \<Rightarrow> float64 list" where
  "ema_scan n st [] = []"
| "ema_scan n st (NaN # xs) = NaN # ema_scan n st xs"
| "ema_scan n st (Fin x # xs) = ema_out (ema_step n st x) # ema_scan n (ema_step n st x) xs"

text \<open>
  Modelled from the spec: the column \<^verbatim>\<open>EMAIndicator(close, window).ema_indicator()\<close>
  returns, the EMA run from the start of the column.
\<close>

definition ema_indicator :: "float64 list \<Rightarrow> nat \<Rightarrow> float64 list" where
  "ema_indicator close window = ema_scan window (Warming 0 0) close"

text \<open>
  Modelled from the spec: \<^verbatim>\<open>ta.momentum.RSIIndicator(close, window).rsi()\<close> is
  missing. The gains and losses are the positive and negative parts of the close-to-close
  deltas; their averages are Wilder's: the simple average of the first n deltas, then
  (previous average \<open>\<times>\<close> (n-1) + new value) / n. RSI = 100 - 100/(1+RS) with
  RS = avgGain/avgLoss, undefined until n deltas exist. The spec gives RS no value when
  avgLoss is 0; the model reports the RSI undefined there.
\<close>

datatype rsi_state = Gathering nat real real | Averaged real real

fun wilder_step :: "nat \<Rightarrow> rsi_state \<Rightarrow> real \<Rightarrow> real \<Rightarrow> rsi_state" where
  "wilder_step n (Gathering k sg sl) g l =
     (if Suc k = n then Averaged ((sg + g) / real n) ((sl + l) / real n)
      else Gathering (Suc k) (sg + g) (sl + l))"
| "wilder_step n (Averaged ag al) g l =
     Averaged ((ag * (real n - 1) + g) / real n) ((al * (real n - 1) + l) / real n)"

fun rsi_out :: "rsi_state \<Rightarrow> float64" where
  "rsi_out (Gathering k sg sl) = NaN"
| "rsi_out (Averaged ag al) = (if al = 0 then NaN else Fin (100 - 100 / (1 + ag / al)))"

fun rsi_scan :: "nat \<Rightarrow> real option \<Rightarrow> rsi_state \<Rightarrow> float64 list \<Rightarrow> float64 list" where
  "rsi_scan n prev st [] = []"
| "rsi_scan n prev st (NaN # xs) = NaN # rsi_scan n prev st xs"
| "rsi_scan n None st (Fin x # xs) = NaN # rsi_scan n (Some x) st xs"
| "rsi_scan n (Some p) st (Fin x # xs) =
     rsi_out (wilder_step n st (max (x - p) 0) (max (p - x) 0)) #
     rsi_scan n (Some x) (wilder_step n st (max (x - p) 0) (max (p - x) 0)) xs"

text \<open>
  Modelled from the spec: the column \<^verbatim>\<open>RSIIndicator(close, window).rsi()\<close>
  returns; the first close has no delta.
\<close>

definition rsi_indicator :: "float64 list \<Rightarrow> nat \<Rightarrow> float64 list" where
  "rsi_indicator close window = rsi_scan window None (Gathering 0 0 0) close"

text \<open>
  Modelled from the spec: \<^verbatim>\<open>ta.trend.MACD(close, window_slow, window_fast,
  window_sign)\<close> with its methods \<^verbatim>\<open>macd\<close>, \<^verbatim>\<open>macd_signal\<close> and
  \<^verbatim>\<open>macd_diff\<close> is missing. The line is the fast EMA minus the slow EMA, the
  signal is the EMA of the line, the histogram is the line minus the signal; a difference
  is undefined when one of its operands is.
\<close>

fun fsub :: "float64 \<Rightarrow> float64 \<Rightarrow> float64" where
  "fsub (Fin a) (Fin b) = Fin (a - b)"
| "fsub a b = NaN"

text \<open>Modelled from the spec: the column \<^verbatim>\<open>MACD(...).macd()\<close> returns.\<close>

definition macd :: "float64 list \<Rightarrow> nat \<Rightarrow> nat \<Rightarrow> float64 list" where
  "macd close window_slow window_fast =
     map2 fsub (ema_indicator close window_fast) (ema_indicator close window_slow)"

text \<open>Modelled from the spec: the column \<^verbatim>\<open>MACD(...).macd_signal()\<close> returns.\<close>

definition macd_signal :: "float64 list \<Rightarrow> nat \<Rightarrow> nat \<Rightarrow> nat \<Rightarrow> float64 list" where
  "macd_signal close window_slow window_fast window_sign =
     ema_indicator (macd close window_slow window_fast) window_sign"

text \<open>Modelled from the spec: the column \<^verbatim>\<open>MACD(...).macd_diff()\<close> returns.\<close>

definition macd_diff :: "float64 list \<Rightarrow> nat \<Rightarrow> nat \<Rightarrow> nat \<Rightarrow> float64 list" where
  "macd_diff close window_slow window_fast window_sign =
     map2 fsub (macd close window_slow window_fast)
       (macd_signal close window_slow window_fast window_sign)"

text \<open>
  Modelled from the spec: \<^verbatim>\<open>ta.volatility.BollingerBands(close, window,
  window_dev)\<close> with its methods \<^verbatim>\<open>bollinger_mavg\<close>,
  \<^verbatim>\<open>bollinger_hband\<close> and \<^verbatim>\<open>bollinger_lband\<close> is missing. The middle band
  is the simple average of the last \<open>window\<close> closes, the outer bands lie
  \<open>window_dev\<close> standard deviations of those closes above and below it; all three are
  undefined before a full window exists (index below window-1), and where the window
  holds an undefined close. The standard deviation is taken over the window as a whole
  population.
\<close>

fun fin_list :: "float64 list \<Rightarrow> real list option" where
  "fin_list [] = Some []"
| "fin_list (NaN # xs) = None"
| "fin_list (Fin x # xs) = (case fin_list xs of None \<Rightarrow> None | Some ys \<Rightarrow> Some (x # ys))"

definition mean :: "real list \<Rightarrow> real" where
  "mean xs = sum_list xs / real (length xs)"

definition stddev :: "real list \<Rightarrow> real" where
  "stddev xs = sqrt (sum_list (map (\<lambda>x. (x - mean xs)\<^sup>2) xs) / real (length xs))"

definition rolling :: "nat \<Rightarrow> (real list \<Rightarrow> real) \<Rightarrow> float64 list \<Rightarrow> float64 list" where
  "rolling w f col =
     map (\<lambda>i. if Suc i < w then NaN
              else (case fin_list (take w (drop (Suc i - w) col)) of
                      None \<Rightarrow> NaN
                    | Some ys \<Rightarrow> Fin (f ys)))
         [0..<length col]"

text \<open>
  Modelled from the spec: the columns \<^verbatim>\<open>BollingerBands(...).bollinger_mavg()\<close>,
  \<^verbatim>\<open>bollinger_hband()\<close> and \<^verbatim>\<open>bollinger_lband()\<close> return.
\<close>

definition bollinger_mavg :: "float64 list \<Rightarrow> nat \<Rightarrow> float64 list" where
  "bollinger_mavg close window = rolling window mean close"

definition bollinger_hband :: "float64 list \<Rightarrow> nat \<Rightarrow> real \<Rightarrow> float64 list" where
  "bollinger_hband close window window_dev =
     rolling window (\<lambda>ys. mean ys + window_dev * stddev ys) close"

definition bollinger_lband :: "float64 list \<Rightarrow> nat \<Rightarrow> real \<Rightarrow> float64 list" where
  "bollinger_lband close window window_dev =
     rolling window (\<lambda>ys. mean ys - window_dev * stddev ys) close"

section \<open>Technical indicator calculation\<close>

text \<open>
  The calls \<^verbatim>\<open>calculate_technical_indicators\<close> makes into the \<^verbatim>\<open>ta\<close>
  package, as a parameter of the model: each takes the Close column and the windows and
  returns a column or raises.
\<close>

record ta_package =
  ta_rsi :: "float64 list \<Rightarrow> nat \<Rightarrow> py_error + float64 list"
  ta_macd :: "float64 list \<Rightarrow> nat \<Rightarrow> nat \<Rightarrow> nat \<Rightarrow> py_error + float64 list"
  ta_macd_signal :: "float64 list \<Rightarrow> nat \<Rightarrow> nat \<Rightarrow> nat \<Rightarrow> py_error + float64 list"
  ta_macd_diff :: "float64 list \<Rightarrow> nat \<Rightarrow> nat \<Rightarrow> nat \<Rightarrow> py_error + float64 list"
  ta_ema_indicator :: "float64 list \<Rightarrow> nat \<Rightarrow> py_error + float64 list"
  ta_bollinger_hband :: "float64 list \<Rightarrow> nat \<Rightarrow> real \<Rightarrow> py_error + float64 list"
  ta_bollinger_lband :: "float64 list \<Rightarrow> nat \<Rightarrow> real \<Rightarrow> py_error + float64 list"
  ta_bollinger_mavg :: "float64 list \<Rightarrow> nat \<Rightarrow> py_error + float64 list"

text \<open>
  Storing a column in the frame aligns it on the frame's index: a row the column has no cell
  for gets NaN.
\<close>

definition cell :: "float64 list \<Rightarrow> nat \<Rightarrow> float64" where
  "cell col i = (if i < length col then col ! i else NaN)"

text \<open>
  \<^verbatim>\<open>calculate_technical_indicators(df)\<close>: no frame for \<^verbatim>\<open>None\<close> or an
  empty frame; otherwise every column is computed from the Close column, in the order of the
  source, and stored in the frame. The calls sit in a \<^verbatim>\<open>try\<close> block: when one
  raises, the \<^verbatim>\<open>except\<close> branch returns \<^verbatim>\<open>None\<close>.
\<close>

definition calculate_technical_indicators ::
  "ta_package \<Rightarrow> candle list option \<Rightarrow> row list option" where
  "calculate_technical_indicators ta df =
     (case df of
        None \<Rightarrow> None
      | Some cs \<Rightarrow>
          if cs = [] then None
          else
            let close = map Close cs in
            case ta_rsi ta close 14 of Inl e \<Rightarrow> None | Inr rsi \<Rightarrow>
            (case ta_macd ta close 26 12 9 of Inl e \<Rightarrow> None | Inr macd_l \<Rightarrow>
            (case ta_macd_signal ta close 26 12 9 of Inl e \<Rightarrow> None | Inr macd_s \<Rightarrow>
            (case ta_macd_diff ta close 26 12 9 of Inl e \<Rightarrow> None | Inr macd_h \<Rightarrow>
            (case ta_ema_indicator ta close 50 of Inl e \<Rightarrow> None | Inr ema50 \<Rightarrow>
            (case ta_ema_indicator ta close 200 of Inl e \<Rightarrow> None | Inr ema200 \<Rightarrow>
            (case ta_bollinger_hband ta close 20 2 of Inl e \<Rightarrow> None | Inr bb_high \<Rightarrow>
            (case ta_bollinger_lband ta close 20 2 of Inl e \<Rightarrow> None | Inr bb_low \<Rightarrow>
            (case ta_bollinger_mavg ta close 20 of Inl e \<Rightarrow> None | Inr bb_mid \<Rightarrow>
               Some (map (\<lambda>i.
                 \<lparr>Timestamp = Timestamp (cs ! i), Open = Open (cs ! i), High = High (cs ! i),
                  Low = Low (cs ! i), Close = Close (cs ! i), Volume = Volume (cs ! i),
                  RSI = cell rsi i, MACD_line = cell macd_l i, MACD_signal = cell macd_s i,
                  MACD_hist = cell macd_h i, EMA50 = cell ema50 i, EMA200 = cell ema200 i,
                  BB_high = cell bb_high i, BB_low = cell bb_low i,
                  BB_mid = cell bb_mid i\<rparr>)
                 [0..<length cs]))))))))))"

text \<open>
  Modelled from the spec: the \<^verbatim>\<open>ta\<close> package is missing. Its calls are the
  indicator functions of the previous section, with the windows the source passes; none of
  them raises.
\<close>

definition ta_from_spec :: ta_package where
  "ta_from_spec =
     \<lparr>ta_rsi = (\<lambda>close window. Inr (rsi_indicator close window)),
      ta_macd = (\<lambda>close window_slow window_fast window_sign.
                  Inr (macd close window_slow window_fast)),
      ta_macd_signal = (\<lambda>close window_slow window_fast window_sign.
                  Inr (macd_signal close window_slow window_fast window_sign)),
      ta_macd_diff = (\<lambda>close window_slow window_fast window_sign.
                  Inr (macd_diff close window_slow window_fast window_sign)),
      ta_ema_indicator = (\<lambda>close window. Inr (ema_indicator close window)),
      ta_bollinger_hband = (\<lambda>close window window_dev.
                  Inr (bollinger_hband close window window_dev)),
      ta_bollinger_lband = (\<lambda>close window window_dev.
                  Inr (bollinger_lband close window window_dev)),
      ta_bollinger_mavg = (\<lambda>close window. Inr (bollinger_mavg close window))\<rparr>"

text \<open>A package whose every call raises.\<close>

definition ta_failing :: ta_package where
  "ta_failing =
     \<lparr>ta_rsi = (\<lambda>close window. Inl LibraryError),
      ta_macd = (\<lambda>close window_slow window_fast window_sign. Inl LibraryError),
      ta_macd_signal = (\<lambda>close window_slow window_fast window_sign. Inl LibraryError),
      ta_macd_diff = (\<lambda>close window_slow window_fast window_sign. Inl LibraryError),
      ta_ema_indicator = (\<lambda>close window. Inl LibraryError),
      ta_bollinger_hband = (\<lambda>close window window_dev. Inl LibraryError),
      ta_bollinger_lband = (\<lambda>close window window_dev. Inl LibraryError),
      ta_bollinger_mavg = (\<lambda>close window. Inl LibraryError)\<rparr>"

section \<open>Example frames\<close>

text \<open>An annotated row with the given close and the five indicator values the classifier reads.\<close>

definition example_row ::
  "real \<Rightarrow> float64 \<Rightarrow> float64 \<Rightarrow> float64 \<Rightarrow> float64 \<Rightarrow> float64 \<Rightarrow> row" where
  "example_row c r ml ms e50 e200 =
     \<lparr>Timestamp = 0, Open = Fin c, High = Fin c, Low = Fin c, Close = Fin c, Volume = Fin 1,
      RSI = r, MACD_line = ml, MACD_signal = ms, MACD_hist = NaN, EMA50 = e50, EMA200 = e200,
      BB_high = NaN, BB_low = NaN, BB_mid = NaN\<rparr>"

text \<open>A candle at time \<open>t\<close> that opened, traded and closed at \<open>c\<close>.\<close>

definition example_candle :: "nat \<Rightarrow> real \<Rightarrow> candle" where
  "example_candle t c =
     \<lparr>Timestamp = t, Open = Fin c, High = Fin c, Low = Fin c, Close = Fin c, Volume = Fin 1\<rparr>"

text \<open>Sixty candles, one per time step, all closing at 100.\<close>

definition flat_series :: "candle list" where
  "flat_series = map (\<lambda>t. example_candle t 100) [0..<60]"

text \<open>Before a bullish cross: MACD line below its signal, EMA50 below EMA200.\<close>

definition row_before_cross :: row where
  "row_before_cross = example_row 100 (Fin 35) (Fin (- 1)) (Fin 0) (Fin 9) (Fin 10)"

text \<open>The candle of the cross, oversold: RSI 25, MACD line above its signal, EMA50 above EMA200.\<close>

definition row_bullish_cross :: row where
  "row_bullish_cross = example_row 95 (Fin 25) (Fin 1) (Fin 0) (Fin 11) (Fin 10)"

text \<open>A row whose indicators are still warming up.\<close>

definition row_warming_up :: row where
  "row_warming_up = example_row 100 NaN NaN NaN (Fin 9) NaN"

section \<open>Properties of the classifier\<close>

lemma check_signals_defined:
  assumes "2 \<le> length rows"
    and "RSI (rows ! (length rows - 1)) = Fin r"
    and "MACD_line (rows ! (length rows - 1)) = Fin ml"
    and "MACD_signal (rows ! (length rows - 1)) = Fin ms"
    and "EMA50 (rows ! (length rows - 1)) = Fin e50"
    and "EMA200 (rows ! (length rows - 1)) = Fin e200"
    and "MACD_line (rows ! (length rows - 2)) = Fin pml"
    and "MACD_signal (rows ! (length rows - 2)) = Fin pms"
    and "EMA50 (rows ! (length rows - 2)) = Fin pe50"
    and "EMA200 (rows ! (length rows - 2)) = Fin pe200"
  shows "check_signals (Some rows) ! 0 =
     PyStr (if r < 30 \<and> (ml > ms \<and> pml \<le> pms) \<and> (e50 > e200 \<and> pe50 \<le> pe200) then ''BUY''
            else if r > 70 \<and> (ml < ms \<and> pml \<ge> pms) \<and> (e50 < e200 \<and> pe50 \<ge> pe200) then ''SELL''
            else ''NO_SIGNAL'')"
proof -
  have "\<not> (rows = [] \<or> length rows < 2)" using assms(1) by auto
  then show ?thesis
    unfolding check_signals_def Let_def using assms(2-) by simp
qed

lemma check_signals_window:
  assumes h: "2 \<le> length rows"
  shows "check_signals (Some rows) = check_signals (Some (drop (length rows - 2) rows))"
proof -
  let ?w = "drop (length rows - 2) rows"
  have l: "length ?w = 2" using h by simp
  have e: "Suc (length rows - 2) = length rows - Suc 0" using h by arith
  have a: "?w ! (length ?w - 1) = rows ! (length rows - 1)"
    using h by (simp add: l e)
  have b: "?w ! (length ?w - 2) = rows ! (length rows - 2)"
    using h by (simp add: l)
  have c: "\<not> (rows = [] \<or> length rows < 2)" using h by auto
  have d: "\<not> (?w = [] \<or> length ?w < 2)" using l by auto
  show ?thesis
    unfolding check_signals_def option.case if_not_P [OF c] if_not_P [OF d] a b ..
qed

lemma check_signals_length_long:
  assumes h: "2 \<le> length rows"
  shows "length (check_signals (Some rows)) = 7"
proof -
  have c: "\<not> (rows = [] \<or> length rows < 2)" using h by auto
  show ?thesis
    unfolding check_signals_def option.case if_not_P [OF c] Let_def
    by (simp only: if_distrib [where f = length] list.size length_Cons if_cancel)
qed

lemma check_signals_short_eq:
  "length rows < 2 \<Longrightarrow>
   check_signals (Some rows) = [PyStr ''NO_SIGNAL'', PyNone, PyNone, PyNone, PyNone, PyNone]"
  by (simp add: check_signals_def)

text \<open>
  C1. On a frame of at least two rows whose latest row has RSI, MACD line, MACD signal,
  EMA50 and EMA200 defined and whose previous row has MACD line, MACD signal, EMA50 and
  EMA200 defined, the signal is BUY exactly when the latest RSI is below 30 and both
  bullish crossovers hold (strict at the latest row, non-strict at the previous one); it is
  SELL exactly when the latest RSI is above 70 and both bearish crossovers hold; and it is
  NO_SIGNAL exactly in every other case.
\<close>

theorem check_signals_classification:
  assumes "2 \<le> length rows"
    and "RSI (rows ! (length rows - 1)) = Fin r"
    and "MACD_line (rows ! (length rows - 1)) = Fin ml"
    and "MACD_signal (rows ! (length rows - 1)) = Fin ms"
    and "EMA50 (rows ! (length rows - 1)) = Fin e50"
    and "EMA200 (rows ! (length rows - 1)) = Fin e200"
    and "MACD_line (rows ! (length rows - 2)) = Fin pml"
    and "MACD_signal (rows ! (length rows - 2)) = Fin pms"
    and "EMA50 (rows ! (length rows - 2)) = Fin pe50"
    and "EMA200 (rows ! (length rows - 2)) = Fin pe200"
  shows "((check_signals (Some rows) ! 0 = PyStr ''BUY'') =
           (r < 30 \<and> (ml > ms \<and> pml \<le> pms) \<and> (e50 > e200 \<and> pe50 \<le> pe200))) \<and>
         ((check_signals (Some rows) ! 0 = PyStr ''SELL'') =
           (r > 70 \<and> (ml < ms \<and> pml \<ge> pms) \<and> (e50 < e200 \<and> pe50 \<ge> pe200))) \<and>
         ((check_signals (Some rows) ! 0 = PyStr ''NO_SIGNAL'') =
           (\<not> (r < 30 \<and> (ml > ms \<and> pml \<le> pms) \<and> (e50 > e200 \<and> pe50 \<le> pe200)) \<and>
            \<not> (r > 70 \<and> (ml < ms \<and> pml \<ge> pms) \<and> (e50 < e200 \<and> pe50 \<ge> pe200))))"
proof -
  define B where "B = (r < 30 \<and> (ml > ms \<and> pml \<le> pms) \<and> (e50 > e200 \<and> pe50 \<le> pe200))"
  define S where "S = (r > 70 \<and> (ml < ms \<and> pml \<ge> pms) \<and> (e50 < e200 \<and> pe50 \<ge> pe200))"
  have excl: "\<not> (B \<and> S)" unfolding B_def S_def by auto
  have hd: "check_signals (Some rows) ! 0 =
      PyStr (if B then ''BUY'' else if S then ''SELL'' else ''NO_SIGNAL'')"
    unfolding B_def S_def by (rule check_signals_defined [OF assms])
  have "((check_signals (Some rows) ! 0 = PyStr ''BUY'') = B) \<and>
        ((check_signals (Some rows) ! 0 = PyStr ''SELL'') = S) \<and>
        ((check_signals (Some rows) ! 0 = PyStr ''NO_SIGNAL'') = (\<not> B \<and> \<not> S))"
    using excl by (cases B; cases S; simp add: hd)
  then show ?thesis unfolding B_def S_def .
qed

theorem check_signals_classification_witness:
  "check_signals (Some [row_before_cross, row_bullish_cross]) ! 0 = PyStr ''BUY''"
  using check_signals_classification
    [of "[row_before_cross, row_bullish_cross]" 25 1 0 11 10 "- 1" 0 9 10]
  by (simp add: row_before_cross_def row_bullish_cross_def example_row_def)

text \<open>
  C2, as the code has it. On a frame of fewer than two rows the result is NO_SIGNAL followed
  by five undefined components: the price is undefined too, also when one candle exists.
\<close>

theorem check_signals_short:
  "length rows < 2 \<Longrightarrow>
   check_signals (Some rows) = [PyStr ''NO_SIGNAL'', PyNone, PyNone, PyNone, PyNone, PyNone]"
  by (rule check_signals_short_eq)

theorem check_signals_short_witness:
  "check_signals (Some [row_bullish_cross]) =
     [PyStr ''NO_SIGNAL'', PyNone, PyNone, PyNone, PyNone, PyNone]"
  using check_signals_short [of "[row_bullish_cross]"] by simp

text \<open>
  C2, as the claim states it, fails: for the frame of one candle with close 95 the price
  component is undefined, not 95.
\<close>

theorem check_signals_short_price_counterexample:
  "Close row_bullish_cross = Fin 95 \<and>
   check_signals (Some [row_bullish_cross]) ! 1 \<noteq> PyFloat (Close row_bullish_cross)"
  by (simp add: check_signals_def row_bullish_cross_def example_row_def)

text \<open>
  C3. On a frame of at least two rows, if one of RSI, MACD line, MACD signal, EMA50, EMA200
  of the latest row or one of MACD line, MACD signal, EMA50, EMA200 of the previous row is
  NaN, the result is NO_SIGNAL followed by the close and the five indicator values exactly
  as the latest row holds them.
\<close>

theorem check_signals_nan:
  assumes "2 \<le> length rows"
    and "latest = rows ! (length rows - 1)"
    and "previous = rows ! (length rows - 2)"
    and "isna (RSI latest) \<or> isna (MACD_line latest) \<or> isna (MACD_signal latest) \<or>
         isna (EMA50 latest) \<or> isna (EMA200 latest) \<or>
         isna (MACD_line previous) \<or> isna (MACD_signal previous) \<or>
         isna (EMA50 previous) \<or> isna (EMA200 previous)"
  shows "check_signals (Some rows) =
           [PyStr ''NO_SIGNAL'', PyFloat (Close latest), PyFloat (RSI latest),
            PyFloat (MACD_line latest), PyFloat (MACD_signal latest),
            PyFloat (EMA50 latest), PyFloat (EMA200 latest)]"
proof -
  have "\<not> (rows = [] \<or> length rows < 2)" using assms(1) by auto
  then show ?thesis
    unfolding check_signals_def Let_def option.case
    using assms(4) unfolding assms(2,3) by (simp only: if_False if_True)
qed

theorem check_signals_nan_witness:
  "check_signals (Some [row_before_cross, row_warming_up]) =
     [PyStr ''NO_SIGNAL'', PyFloat (Fin 100), PyFloat NaN, PyFloat NaN, PyFloat NaN,
      PyFloat (Fin 9), PyFloat NaN]"
  using check_signals_nan
    [of "[row_before_cross, row_warming_up]" row_warming_up row_before_cross]
  by (simp add: row_warming_up_def example_row_def)

text \<open>
  C9. Two frames of at least two rows with the same last two rows get the same result:
  the classifier reads nothing but that window.
\<close>

theorem check_signals_two_rows:
  assumes "2 \<le> length xs" and "2 \<le> length ys"
    and "drop (length xs - 2) xs = drop (length ys - 2) ys"
  shows "check_signals (Some xs) = check_signals (Some ys)"
  using assms check_signals_window [of xs] check_signals_window [of ys] by simp

theorem check_signals_two_rows_witness:
  "check_signals (Some [row_warming_up, row_before_cross, row_bullish_cross]) =
   check_signals (Some [row_before_cross, row_bullish_cross])"
  using check_signals_two_rows
    [of "[row_warming_up, row_before_cross, row_bullish_cross]"
        "[row_before_cross, row_bullish_cross]"]
  by simp

text \<open>
  C10. For no frame or a frame of fewer than two rows the result has six components; for a
  frame of at least two rows it has seven; and the caller's unpacking into seven names
  raises exactly on the frames of fewer than two rows.
\<close>

theorem check_signals_arity:
  "length (check_signals None) = 6 \<and>
   length (check_signals (Some rows)) = (if length rows < 2 then 6 else 7) \<and>
   (unpack7 (check_signals (Some rows)) = Inl ValueError) = (length rows < 2)"
proof (cases "length rows < 2")
  case True
  then show ?thesis
    by (simp add: check_signals_short_eq) (simp add: check_signals_def)
next
  case False
  then have l: "length (check_signals (Some rows)) = 7"
    by (simp add: check_signals_length_long)
  then obtain a b c d e f g where "check_signals (Some rows) = [a, b, c, d, e, f, g]"
    by (auto simp: numeral_eq_Suc length_Suc_conv)
  with False l show ?thesis by (simp add: check_signals_def)
qed

section \<open>Properties of the indicator columns\<close>

subsection \<open>Every column is as long as the frame\<close>

lemma length_ema_scan [simp]: "length (ema_scan n st xs) = length xs"
  by (induction n st xs rule: ema_scan.induct) simp_all

lemma length_rsi_scan [simp]: "length (rsi_scan n prev st xs) = length xs"
  by (induction n prev st xs rule: rsi_scan.induct) simp_all

lemma length_ema_indicator [simp]: "length (ema_indicator close w) = length close"
  by (simp add: ema_indicator_def)

lemma length_rsi_indicator [simp]: "length (rsi_indicator close w) = length close"
  by (simp add: rsi_indicator_def)

lemma length_macd [simp]: "length (macd close s f) = length close"
  by (simp add: macd_def)

lemma length_macd_signal [simp]: "length (macd_signal close s f g) = length close"
  by (simp add: macd_signal_def)

lemma length_macd_diff [simp]: "length (macd_diff close s f g) = length close"
  by (simp add: macd_diff_def)

lemma length_rolling [simp]: "length (rolling w f col) = length col"
  by (simp add: rolling_def)

subsection \<open>A column's cell depends on the cells up to it\<close>

lemma ema_scan_prefix:
  "take (length xs) (ema_scan n st (xs @ ys)) = ema_scan n st xs"
  by (induction n st xs rule: ema_scan.induct) simp_all

lemma rsi_scan_prefix:
  "take (length xs) (rsi_scan n prev st (xs @ ys)) = rsi_scan n prev st xs"
  by (induction n prev st xs rule: rsi_scan.induct) simp_all

lemma ema_indicator_prefix:
  "take (length xs) (ema_indicator (xs @ ys) w) = ema_indicator xs w"
  by (simp add: ema_indicator_def ema_scan_prefix)

lemma rsi_indicator_prefix:
  "take (length xs) (rsi_indicator (xs @ ys) w) = rsi_indicator xs w"
  by (simp add: rsi_indicator_def rsi_scan_prefix)

lemma macd_prefix:
  "take (length xs) (macd (xs @ ys) s f) = macd xs s f"
  by (simp add: macd_def take_map take_zip ema_indicator_prefix)

lemma macd_signal_prefix:
  "take (length xs) (macd_signal (xs @ ys) s f g) = macd_signal xs s f g"
proof -
  have "macd (xs @ ys) s f = macd xs s f @ drop (length xs) (macd (xs @ ys) s f)"
    using macd_prefix [of xs ys s f] append_take_drop_id [of "length xs" "macd (xs @ ys) s f"]
    by simp
  then have "take (length (macd xs s f)) (ema_indicator (macd (xs @ ys) s f) g) =
        ema_indicator (macd xs s f) g"
    using ema_indicator_prefix [of "macd xs s f" "drop (length xs) (macd (xs @ ys) s f)" g]
    by simp
  then show ?thesis by (simp add: macd_signal_def)
qed

lemma macd_diff_prefix:
  "take (length xs) (macd_diff (xs @ ys) s f g) = macd_diff xs s f g"
  by (simp add: macd_diff_def take_map take_zip macd_prefix macd_signal_prefix)

lemma rolling_prefix:
  "take (length xs) (rolling w f (xs @ ys)) = rolling w f xs"
  by (simp add: rolling_def take_map)


lemma prefix_nth:
  assumes "take (length xs) l' = l" and "i < length xs"
  shows "l' ! i = l ! i"
  using assms by (metis nth_take)

lemma ema_indicator_prefix_nth:
  "i < length xs \<Longrightarrow> ema_indicator (xs @ ys) w ! i = ema_indicator xs w ! i"
  by (rule prefix_nth [OF ema_indicator_prefix])

lemma rsi_indicator_prefix_nth:
  "i < length xs \<Longrightarrow> rsi_indicator (xs @ ys) w ! i = rsi_indicator xs w ! i"
  by (rule prefix_nth [OF rsi_indicator_prefix])

lemma macd_prefix_nth:
  "i < length xs \<Longrightarrow> macd (xs @ ys) s f ! i = macd xs s f ! i"
  by (rule prefix_nth [OF macd_prefix])

lemma macd_signal_prefix_nth:
  "i < length xs \<Longrightarrow> macd_signal (xs @ ys) s f g ! i = macd_signal xs s f g ! i"
  by (rule prefix_nth [OF macd_signal_prefix])

lemma macd_diff_prefix_nth:
  "i < length xs \<Longrightarrow> macd_diff (xs @ ys) s f g ! i = macd_diff xs s f g ! i"
  by (rule prefix_nth [OF macd_diff_prefix])

lemma rolling_prefix_nth:
  "i < length xs \<Longrightarrow> rolling w f (xs @ ys) ! i = rolling w f xs ! i"
  by (rule prefix_nth [OF rolling_prefix])

lemmas column_prefix_nth =
  ema_indicator_prefix_nth rsi_indicator_prefix_nth macd_prefix_nth macd_signal_prefix_nth
  macd_diff_prefix_nth rolling_prefix_nth

subsection \<open>Warm-up\<close>

lemma ema_scan_warming_nan:
  "i < length zs \<Longrightarrow> k + Suc i < n \<Longrightarrow> ema_scan n (Warming k s) zs ! i = NaN"
proof (induction zs arbitrary: k s i)
  case Nil
  then show ?case by simp
next
  case (Cons z zs)
  show ?case
  proof (cases z)
    case NaN
    with Cons show ?thesis by (cases i) simp_all
  next
    case (Fin x)
    with Cons show ?thesis by (cases i) simp_all
  qed
qed

lemma ema_indicator_warming_nan:
  "i < length close \<Longrightarrow> Suc i < w \<Longrightarrow> ema_indicator close w ! i = NaN"
  by (simp add: ema_indicator_def ema_scan_warming_nan)

lemma rsi_scan_gathering_nan:
  "i < length zs \<Longrightarrow> (case prev of None \<Rightarrow> k + i < n | Some p \<Rightarrow> k + Suc i < n) \<Longrightarrow>
   rsi_scan n prev (Gathering k sg sl) zs ! i = NaN"
proof (induction zs arbitrary: prev k sg sl i)
  case Nil
  then show ?case by simp
next
  case (Cons z zs)
  show ?case
  proof (cases z)
    case NaN
    with Cons show ?thesis by (cases i; cases prev) simp_all
  next
    case (Fin x)
    with Cons show ?thesis by (cases i; cases prev) simp_all
  qed
qed

lemma rsi_indicator_warming_nan:
  "i < length close \<Longrightarrow> i < w \<Longrightarrow> rsi_indicator close w ! i = NaN"
  by (simp add: rsi_indicator_def rsi_scan_gathering_nan)

lemma fsub_NaN_right [simp]: "fsub a NaN = NaN"
  by (cases a) simp_all

lemma macd_warming_nan:
  "i < length close \<Longrightarrow> Suc i < s \<Longrightarrow> macd close s f ! i = NaN"
  by (simp add: macd_def ema_indicator_warming_nan)

lemma ema_scan_replicate_nan:
  "ema_scan n st (replicate m NaN @ zs) = replicate m NaN @ ema_scan n st zs"
  by (induction m) simp_all

lemma nan_prefix:
  assumes "\<And>j. j < m \<Longrightarrow> j < length l \<Longrightarrow> l ! j = NaN"
  shows "l = replicate (min m (length l)) NaN @ drop m l"
proof (rule nth_equalityI)
  show "length l = length (replicate (min m (length l)) NaN @ drop m l)" by auto
next
  fix i assume "i < length l"
  then show "l ! i = (replicate (min m (length l)) NaN @ drop m l) ! i"
    using assms [of i] by (auto simp: nth_append min_def)
qed

lemma ema_indicator_after_nan_prefix:
  assumes "\<And>j. j < m \<Longrightarrow> j < length l \<Longrightarrow> l ! j = NaN"
  shows "ema_indicator l w = replicate (min m (length l)) NaN @ ema_indicator (drop m l) w"
proof -
  have "ema_indicator l w = ema_indicator (replicate (min m (length l)) NaN @ drop m l) w"
    using nan_prefix [OF assms] by simp
  then show ?thesis by (simp add: ema_indicator_def ema_scan_replicate_nan)
qed

lemma macd_signal_warming_nan:
  assumes "i < length close" and "i + 2 < s + g"
  shows "macd_signal close s f g ! i = NaN"
proof -
  let ?l = "macd close s f"
  have pre: "\<And>j. j < s - 1 \<Longrightarrow> j < length ?l \<Longrightarrow> ?l ! j = NaN"
    by (simp add: macd_warming_nan)
  have eq: "ema_indicator ?l g =
      replicate (min (s - 1) (length ?l)) NaN @ ema_indicator (drop (s - 1) ?l) g"
    by (rule ema_indicator_after_nan_prefix [OF pre])
  show ?thesis
  proof (cases "i < s - 1")
    case True
    with assms show ?thesis unfolding macd_signal_def eq by (simp add: nth_append)
  next
    case False
    with assms have "ema_indicator (drop (s - 1) ?l) g ! (i - (s - 1)) = NaN"
      by (intro ema_indicator_warming_nan) auto
    with False assms show ?thesis unfolding macd_signal_def eq by (simp add: nth_append min_def)
  qed
qed

lemma macd_diff_warming_nan:
  "i < length close \<Longrightarrow> i + 2 < s + g \<Longrightarrow> macd_diff close s f g ! i = NaN"
  by (simp add: macd_diff_def macd_signal_warming_nan)

lemma rolling_warming_nan:
  "i < length col \<Longrightarrow> Suc i < w \<Longrightarrow> rolling w f col ! i = NaN"
  by (simp add: rolling_def)

section \<open>Properties of the indicator engine\<close>

lemma cell_nth [simp]: "i < length col \<Longrightarrow> cell col i = col ! i"
  by (simp add: cell_def)

lemma calculate_technical_indicators_spec:
  "calculate_technical_indicators ta_from_spec df =
     (case df of
        None \<Rightarrow> None
      | Some cs \<Rightarrow>
          if cs = [] then None
          else Some (map (\<lambda>i.
                 \<lparr>Timestamp = Timestamp (cs ! i), Open = Open (cs ! i), High = High (cs ! i),
                  Low = Low (cs ! i), Close = Close (cs ! i), Volume = Volume (cs ! i),
                  RSI = rsi_indicator (map Close cs) 14 ! i,
                  MACD_line = macd (map Close cs) 26 12 ! i,
                  MACD_signal = macd_signal (map Close cs) 26 12 9 ! i,
                  MACD_hist = macd_diff (map Close cs) 26 12 9 ! i,
                  EMA50 = ema_indicator (map Close cs) 50 ! i,
                  EMA200 = ema_indicator (map Close cs) 200 ! i,
                  BB_high = bollinger_hband (map Close cs) 20 2 ! i,
                  BB_low = bollinger_lband (map Close cs) 20 2 ! i,
                  BB_mid = bollinger_mavg (map Close cs) 20 ! i\<rparr>)
                 [0..<length cs]))"
  by (cases df)
    (simp_all add: calculate_technical_indicators_def ta_from_spec_def Let_def
      bollinger_hband_def bollinger_lband_def bollinger_mavg_def)

lemma calculate_technical_indicators_total:
  "calculate_technical_indicators ta (Some cs) = None \<or>
   (\<exists>rows. calculate_technical_indicators ta (Some cs) = Some rows \<and>
      length rows = length cs)"
  by (simp add: calculate_technical_indicators_def Let_def split: sum.splits)

lemma calculate_technical_indicators_rows:
  assumes "cs \<noteq> []"
  shows "\<exists>rows. calculate_technical_indicators ta_from_spec (Some cs) = Some rows \<and>
           length rows = length cs \<and>
           (\<forall>i<length cs.
              RSI (rows ! i) = rsi_indicator (map Close cs) 14 ! i \<and>
              MACD_line (rows ! i) = macd (map Close cs) 26 12 ! i \<and>
              MACD_signal (rows ! i) = macd_signal (map Close cs) 26 12 9 ! i \<and>
              MACD_hist (rows ! i) = macd_diff (map Close cs) 26 12 9 ! i \<and>
              EMA50 (rows ! i) = ema_indicator (map Close cs) 50 ! i \<and>
              EMA200 (rows ! i) = ema_indicator (map Close cs) 200 ! i \<and>
              BB_high (rows ! i) = bollinger_hband (map Close cs) 20 2 ! i \<and>
              BB_low (rows ! i) = bollinger_lband (map Close cs) 20 2 ! i \<and>
              BB_mid (rows ! i) = bollinger_mavg (map Close cs) 20 ! i \<and>
              Close (rows ! i) = Close (cs ! i))"
  using assms unfolding calculate_technical_indicators_spec by simp

text \<open>
  C8. With the package as the spec describes it: for a non-empty series \<open>s\<close> and a
  candle \<open>c\<close>, the rows computed for \<open>s\<close> are the
  first \<open>length s\<close> rows computed for \<open>s\<close> with \<open>c\<close> appended: all nine indicator fields
  of every earlier row, NaN or not, are unchanged by the append.
\<close>

theorem calculate_technical_indicators_causal:
  assumes "s \<noteq> []"
  shows "calculate_technical_indicators ta_from_spec (Some s) =
         map_option (take (length s)) (calculate_technical_indicators ta_from_spec (Some (s @ [c])))"
proof -
  have len: "\<And>i. i < length s \<Longrightarrow> i < length (map Close s)" by simp
  show ?thesis
    using assms
    unfolding calculate_technical_indicators_spec bollinger_hband_def
      bollinger_lband_def bollinger_mavg_def
    by (simp add: take_map nth_append column_prefix_nth [OF len])
qed

theorem calculate_technical_indicators_causal_witness:
  "calculate_technical_indicators ta_from_spec (Some [example_candle 0 100]) =
   map_option (take 1)
     (calculate_technical_indicators ta_from_spec (Some [example_candle 0 100, example_candle 1 101]))"
  using calculate_technical_indicators_causal [of "[example_candle 0 100]" "example_candle 1 101"]
  by simp

text \<open>
  C7, as the code has it. Whatever the package does, the engine returns
  \<^verbatim>\<open>None\<close> for no frame and for the empty frame, not an empty frame, and for
  any series it returns either \<^verbatim>\<open>None\<close> (a call raised) or a frame with one row
  per candle: it never raises. With the package as the spec describes it, a non-empty series
  gets its frame, and each indicator field is NaN below its warm-up index: RSI below 14, the
  MACD line below 25, the MACD signal and histogram below 33, EMA50 below 49, EMA200 below
  199, the Bollinger bands below 19. For no frame and for the empty frame the classifier
  returns NO_SIGNAL with every other component undefined.
\<close>

theorem short_series_undefined:
  "calculate_technical_indicators ta None = None \<and>
   calculate_technical_indicators ta (Some []) = None \<and>
   (calculate_technical_indicators ta (Some cs) = None \<or>
    (\<exists>rows. calculate_technical_indicators ta (Some cs) = Some rows \<and>
       length rows = length cs)) \<and>
   (cs \<noteq> [] \<longrightarrow>
      (\<exists>rows. calculate_technical_indicators ta_from_spec (Some cs) = Some rows \<and>
         length rows = length cs \<and>
         (\<forall>i<length cs.
            (i < 14 \<longrightarrow> RSI (rows ! i) = NaN) \<and>
            (i < 25 \<longrightarrow> MACD_line (rows ! i) = NaN) \<and>
            (i < 33 \<longrightarrow> MACD_signal (rows ! i) = NaN \<and> MACD_hist (rows ! i) = NaN) \<and>
            (i < 49 \<longrightarrow> EMA50 (rows ! i) = NaN) \<and>
            (i < 199 \<longrightarrow> EMA200 (rows ! i) = NaN) \<and>
            (i < 19 \<longrightarrow> BB_high (rows ! i) = NaN \<and> BB_low (rows ! i) = NaN \<and>
                        BB_mid (rows ! i) = NaN)))) \<and>
   check_signals None = [PyStr ''NO_SIGNAL'', PyNone, PyNone, PyNone, PyNone, PyNone] \<and>
   check_signals (Some []) = [PyStr ''NO_SIGNAL'', PyNone, PyNone, PyNone, PyNone, PyNone]"
proof -
  have a: "calculate_technical_indicators ta None = None"
    by (simp add: calculate_technical_indicators_def)
  have b: "calculate_technical_indicators ta (Some []) = None"
    by (simp add: calculate_technical_indicators_def)
  have c: "check_signals None = [PyStr ''NO_SIGNAL'', PyNone, PyNone, PyNone, PyNone, PyNone]"
    by (simp add: check_signals_def)
  have d: "check_signals (Some []) = [PyStr ''NO_SIGNAL'', PyNone, PyNone, PyNone, PyNone, PyNone]"
    by (simp add: check_signals_def)
  have e: "\<exists>rows. calculate_technical_indicators ta_from_spec (Some cs) = Some rows \<and>
         length rows = length cs \<and>
         (\<forall>i<length cs.
            (i < 14 \<longrightarrow> RSI (rows ! i) = NaN) \<and>
            (i < 25 \<longrightarrow> MACD_line (rows ! i) = NaN) \<and>
            (i < 33 \<longrightarrow> MACD_signal (rows ! i) = NaN \<and> MACD_hist (rows ! i) = NaN) \<and>
            (i < 49 \<longrightarrow> EMA50 (rows ! i) = NaN) \<and>
            (i < 199 \<longrightarrow> EMA200 (rows ! i) = NaN) \<and>
            (i < 19 \<longrightarrow> BB_high (rows ! i) = NaN \<and> BB_low (rows ! i) = NaN \<and>
                        BB_mid (rows ! i) = NaN))" if ne: "cs \<noteq> []"
  proof -
    obtain rows where r: "calculate_technical_indicators ta_from_spec (Some cs) = Some rows"
      "length rows = length cs"
      and f: "\<And>i. i < length cs \<Longrightarrow>
              RSI (rows ! i) = rsi_indicator (map Close cs) 14 ! i \<and>
              MACD_line (rows ! i) = macd (map Close cs) 26 12 ! i \<and>
              MACD_signal (rows ! i) = macd_signal (map Close cs) 26 12 9 ! i \<and>
              MACD_hist (rows ! i) = macd_diff (map Close cs) 26 12 9 ! i \<and>
              EMA50 (rows ! i) = ema_indicator (map Close cs) 50 ! i \<and>
              EMA200 (rows ! i) = ema_indicator (map Close cs) 200 ! i \<and>
              BB_high (rows ! i) = bollinger_hband (map Close cs) 20 2 ! i \<and>
              BB_low (rows ! i) = bollinger_lband (map Close cs) 20 2 ! i \<and>
              BB_mid (rows ! i) = bollinger_mavg (map Close cs) 20 ! i \<and>
              Close (rows ! i) = Close (cs ! i)"
      using calculate_technical_indicators_rows [OF ne] by blast
    have "(i < 14 \<longrightarrow> RSI (rows ! i) = NaN) \<and>
            (i < 25 \<longrightarrow> MACD_line (rows ! i) = NaN) \<and>
            (i < 33 \<longrightarrow> MACD_signal (rows ! i) = NaN \<and> MACD_hist (rows ! i) = NaN) \<and>
            (i < 49 \<longrightarrow> EMA50 (rows ! i) = NaN) \<and>
            (i < 199 \<longrightarrow> EMA200 (rows ! i) = NaN) \<and>
            (i < 19 \<longrightarrow> BB_high (rows ! i) = NaN \<and> BB_low (rows ! i) = NaN \<and>
                        BB_mid (rows ! i) = NaN)" if i: "i < length cs" for i
      using i by (simp add: f [OF i] rsi_indicator_warming_nan macd_warming_nan
          macd_signal_warming_nan macd_diff_warming_nan ema_indicator_warming_nan
          rolling_warming_nan bollinger_hband_def bollinger_lband_def bollinger_mavg_def)
    with r show ?thesis by blast
  qed
  have g: "calculate_technical_indicators ta (Some cs) = None \<or>
    (\<exists>rows. calculate_technical_indicators ta (Some cs) = Some rows \<and>
       length rows = length cs)"
    by (rule calculate_technical_indicators_total)
  from a b c d e g show ?thesis by blast
qed


theorem short_series_undefined_witness:
  "\<exists>rows. calculate_technical_indicators ta_from_spec (Some [example_candle 0 100]) = Some rows \<and>
     length rows = 1 \<and> RSI (rows ! 0) = NaN \<and> MACD_line (rows ! 0) = NaN \<and>
     MACD_signal (rows ! 0) = NaN \<and> MACD_hist (rows ! 0) = NaN \<and> EMA50 (rows ! 0) = NaN \<and>
     EMA200 (rows ! 0) = NaN \<and> BB_high (rows ! 0) = NaN \<and> BB_low (rows ! 0) = NaN \<and>
     BB_mid (rows ! 0) = NaN"
  using short_series_undefined [of ta_failing "[example_candle 0 100]"] by auto


text \<open>
  C7, as the claim states it, fails: for the empty series the engine does not return an
  empty list of snapshots, whether the package computes its columns or raises.
\<close>

theorem empty_series_counterexample:
  "calculate_technical_indicators ta_from_spec (Some []) \<noteq> Some [] \<and>
   calculate_technical_indicators ta_failing (Some []) \<noteq> Some []"
  by (simp add: calculate_technical_indicators_def)


section \<open>The values of the moving averages\<close>

text \<open>
  On a column without NaN the cell at index \<open>i\<close> is the output of the state reached
  after the first \<open>i + 1\<close> values.
\<close>

lemma ema_scan_nth:
  "i < length xs \<Longrightarrow>
   ema_scan n st (map Fin xs) ! i = ema_out (foldl (ema_step n) st (take (Suc i) xs))"
proof (induction xs arbitrary: st i)
  case Nil
  then show ?case by simp
next
  case (Cons x xs)
  then show ?case by (cases i) simp_all
qed

lemma foldl_ema_step_warming:
  "k + length ys < n \<Longrightarrow>
   foldl (ema_step n) (Warming k s) ys = Warming (k + length ys) (s + sum_list ys)"
  by (induction ys arbitrary: k s) (simp_all add: add.assoc)

lemma foldl_ema_step_seed:
  "k + length ys = n \<Longrightarrow> ys \<noteq> [] \<Longrightarrow>
   foldl (ema_step n) (Warming k s) ys = Smoothed ((s + sum_list ys) / real n)"
proof (induction ys arbitrary: k s)
  case Nil
  then show ?case by simp
next
  case (Cons y ys)
  show ?case
  proof (cases "ys = []")
    case True
    with Cons.prems show ?thesis by simp
  next
    case False
    with Cons.prems have "Suc k \<noteq> n" by auto
    moreover have "Suc k + length ys = n" using Cons.prems by simp
    ultimately show ?thesis using Cons.IH [OF _ False, of "Suc k" "s + y"]
      by (simp add: add.assoc)
  qed
qed

lemma foldl_ema_step_smoothed:
  "\<exists>e'. foldl (ema_step n) (Smoothed e) ys = Smoothed e'"
  by (induction ys arbitrary: e) simp_all

lemma foldl_ema_step_running:
  assumes "0 < n" and "n \<le> length ys"
  shows "\<exists>e. foldl (ema_step n) (Warming 0 0) ys = Smoothed e"
proof -
  have ne: "take n ys \<noteq> []" using assms by auto
  have "foldl (ema_step n) (Warming 0 0) (take n ys) =
        Smoothed ((0 + sum_list (take n ys)) / real n)"
    using assms by (intro foldl_ema_step_seed ne) simp
  moreover have "foldl (ema_step n) (Warming 0 0) ys =
        foldl (ema_step n) (foldl (ema_step n) (Warming 0 0) (take n ys)) (drop n ys)"
    by (metis append_take_drop_id foldl_append)
  ultimately show ?thesis using foldl_ema_step_smoothed by metis
qed

lemma ema_indicator_seed:
  assumes "0 < n" and "n \<le> length xs"
  shows "ema_indicator (map Fin xs) n ! (n - 1) = Fin (sum_list (take n xs) / real n)"
proof -
  have ne: "take n xs \<noteq> []" using assms by auto
  have "foldl (ema_step n) (Warming 0 0) (take n xs) =
        Smoothed ((0 + sum_list (take n xs)) / real n)"
    using assms by (intro foldl_ema_step_seed ne) simp
  then show ?thesis using assms by (simp add: ema_indicator_def ema_scan_nth)
qed

lemma ema_indicator_step:
  assumes "0 < n" and "n \<le> i" and "i < length xs"
  shows "\<exists>e. ema_indicator (map Fin xs) n ! (i - 1) = Fin e \<and>
             ema_indicator (map Fin xs) n ! i =
               Fin (xs ! i * alpha n + e * (1 - alpha n))"
proof -
  obtain e where e: "foldl (ema_step n) (Warming 0 0) (take i xs) = Smoothed e"
    using foldl_ema_step_running [of n "take i xs"] assms by auto
  have "take (Suc i) xs = take i xs @ [xs ! i]"
    using assms by (simp add: take_Suc_conv_app_nth)
  then have "foldl (ema_step n) (Warming 0 0) (take (Suc i) xs) =
        Smoothed (xs ! i * alpha n + e * (1 - alpha n))"
    by (simp add: e)
  moreover have "Suc (i - 1) = i" using assms by simp
  ultimately show ?thesis using assms e
    by (simp add: ema_indicator_def ema_scan_nth)
qed

lemma ema_indicator_defined_iff:
  assumes "0 < w" and "i < length xs"
  shows "isna (ema_indicator (map Fin xs) w ! i) = (Suc i < w)"
proof (cases "Suc i < w")
  case True
  then have "foldl (ema_step w) (Warming 0 0) (take (Suc i) xs) =
      Warming (0 + length (take (Suc i) xs)) (0 + sum_list (take (Suc i) xs))"
    using assms by (intro foldl_ema_step_warming) simp
  with True assms show ?thesis by (simp add: ema_indicator_def ema_scan_nth)
next
  case False
  then obtain e where "foldl (ema_step w) (Warming 0 0) (take (Suc i) xs) = Smoothed e"
    using foldl_ema_step_running [of w "take (Suc i) xs"] assms by auto
  with False assms show ?thesis by (simp add: ema_indicator_def ema_scan_nth)
qed

text \<open>
  C4. With the package as the spec describes it, on a series whose closes are all defined,
  and for the window 50 with the column EMA50
  or the window 200 with the column EMA200: the column is NaN at every index below n-1, it
  is the simple average of the first n closes at index n-1, and at every index i from n on
  it is close[i] \<open>\<times>\<close> 2/(n+1) + EMA[i-1] \<open>\<times>\<close> (1 - 2/(n+1)).
\<close>

theorem ema_columns:
  assumes "calculate_technical_indicators ta_from_spec (Some cs) = Some rows"
    and "map Close cs = map Fin xs"
    and "(n, col) = (50, EMA50) \<or> (n, col) = (200, EMA200)"
    and "i < length cs"
  shows "(i < n - 1 \<longrightarrow> col (rows ! i) = NaN) \<and>
         (i = n - 1 \<longrightarrow> col (rows ! i) = Fin (sum_list (take n xs) / real n)) \<and>
         (n \<le> i \<longrightarrow>
            (\<exists>e. col (rows ! (i - 1)) = Fin e \<and>
                 col (rows ! i) =
                   Fin (xs ! i * (2 / (real n + 1)) + e * (1 - 2 / (real n + 1)))))"
proof -
  have ne: "cs \<noteq> []" using assms(4) by auto
  have len: "length xs = length cs" using assms(2) by (metis length_map)
  obtain rows' where r: "calculate_technical_indicators ta_from_spec (Some cs) = Some rows'"
    and f: "\<And>j. j < length cs \<Longrightarrow>
              EMA50 (rows' ! j) = ema_indicator (map Close cs) 50 ! j \<and>
              EMA200 (rows' ! j) = ema_indicator (map Close cs) 200 ! j"
    using calculate_technical_indicators_rows [OF ne] by blast
  have rows: "rows' = rows" using r assms(1) by simp
  have c: "\<And>j. j < length cs \<Longrightarrow> col (rows ! j) = ema_indicator (map Fin xs) n ! j"
    using assms(3) f unfolding rows assms(2) by auto
  have n: "0 < n" using assms(3) by auto
  have 1: "col (rows ! i) = NaN" if "i < n - 1"
    using that assms(4) len by (simp add: c ema_indicator_warming_nan)
  have 2: "col (rows ! i) = Fin (sum_list (take n xs) / real n)" if "i = n - 1"
    using that assms(4) len n ema_indicator_seed [of n xs] by (simp add: c)
  have 3: "\<exists>e. col (rows ! (i - 1)) = Fin e \<and>
            col (rows ! i) = Fin (xs ! i * (2 / (real n + 1)) + e * (1 - 2 / (real n + 1)))"
    if "n \<le> i"
    using that assms(4) len n ema_indicator_step [of n i xs] by (simp add: c alpha_def)
  from 1 2 3 show ?thesis by blast
qed


theorem ema_columns_witness:
  "\<exists>rows e. calculate_technical_indicators ta_from_spec (Some flat_series) = Some rows \<and>
      EMA50 (rows ! 48) = NaN \<and>
      EMA50 (rows ! 49) = Fin e \<and>
      EMA50 (rows ! 50) = Fin (100 * (2 / 51) + e * (1 - 2 / 51))"
proof -
  have ne: "flat_series \<noteq> []" by (simp add: flat_series_def)
  obtain rows where r: "calculate_technical_indicators ta_from_spec (Some flat_series) = Some rows"
    using calculate_technical_indicators_rows [OF ne] by blast
  have cl: "map Close flat_series = map Fin (replicate 60 100)"
    by (simp add: flat_series_def example_candle_def map_replicate_const o_def)
  have l: "length flat_series = 60" by (simp add: flat_series_def)
  have a: "EMA50 (rows ! 48) = NaN"
    using ema_columns [OF r cl, of 50 EMA50 48] l by simp
  obtain e where "EMA50 (rows ! 49) = Fin e"
    and "EMA50 (rows ! 50) = Fin (100 * (2 / 51) + e * (1 - 2 / 51))"
    using ema_columns [OF r cl, of 50 EMA50 50] l by auto
  with r a show ?thesis by blast
qed

section \<open>The MACD columns\<close>

lemma isna_fsub [simp]: "isna (fsub a b) = (isna a \<or> isna b)"
  by (cases a; cases b) simp_all

lemma isna_NaN: "isna a = (a = NaN)"
  by (cases a) simp_all

lemma macd_nth:
  "i < length close \<Longrightarrow>
   macd close s f ! i = fsub (ema_indicator close f ! i) (ema_indicator close s ! i)"
  by (simp add: macd_def)

lemma macd_diff_nth:
  "i < length close \<Longrightarrow>
   macd_diff close s f g ! i = fsub (macd close s f ! i) (macd_signal close s f g ! i)"
  by (simp add: macd_diff_def)

lemma macd_defined_iff:
  assumes "0 < f" and "f \<le> s" and "i < length xs"
  shows "isna (macd (map Fin xs) s f ! i) = (Suc i < s)"
  using assms by (auto simp: macd_nth ema_indicator_defined_iff)

lemma all_defined_map_Fin:
  "(\<And>j. j < length l \<Longrightarrow> \<not> isna (l ! j)) \<Longrightarrow> \<exists>ys. l = map Fin ys"
proof (induction l)
  case Nil
  then show ?case by simp
next
  case (Cons z zs)
  have "\<not> isna z" using Cons.prems [of 0] by simp
  then obtain y where y: "z = Fin y" by (cases z) simp_all
  have "\<And>j. j < length zs \<Longrightarrow> \<not> isna (zs ! j)"
    using Cons.prems [of "Suc j" for j] by simp
  then obtain ys where "zs = map Fin ys" using Cons.IH by blast
  with y have "z # zs = map Fin (y # ys)" by simp
  then show ?case by (rule exI)
qed

lemma macd_signal_defined_iff:
  assumes "0 < f" and "f \<le> s" and "0 < g" and "i < length xs"
  shows "isna (macd_signal (map Fin xs) s f g ! i) = (i + 2 < s + g)"
proof (cases "i + 2 < s + g")
  case True
  then show ?thesis using assms by (simp add: macd_signal_warming_nan)
next
  case False
  let ?l = "macd (map Fin xs) s f"
  have s: "0 < s" using assms by simp
  have pre: "\<And>j. j < s - 1 \<Longrightarrow> j < length ?l \<Longrightarrow> ?l ! j = NaN"
    by (simp add: macd_warming_nan)
  have eq: "ema_indicator ?l g =
      replicate (min (s - 1) (length ?l)) NaN @ ema_indicator (drop (s - 1) ?l) g"
    by (rule ema_indicator_after_nan_prefix [OF pre])
  have "\<And>j. j < length (drop (s - 1) ?l) \<Longrightarrow> \<not> isna (drop (s - 1) ?l ! j)"
    using assms(1,2) s by (simp add: macd_defined_iff)
  then obtain ys where ys: "drop (s - 1) ?l = map Fin ys"
    using all_defined_map_Fin by blast
  have ly: "length ys = length xs - (s - 1)"
    using ys by (metis length_drop length_macd length_map)
  have i: "s - 1 \<le> i" using False assms(3) by simp
  have "isna (ema_indicator (map Fin ys) g ! (i - (s - 1))) = (Suc (i - (s - 1)) < g)"
    using assms i ly by (intro ema_indicator_defined_iff) auto
  moreover have "macd_signal (map Fin xs) s f g ! i =
      ema_indicator (map Fin ys) g ! (i - (s - 1))"
    using i assms(4) unfolding macd_signal_def eq ys by (simp add: nth_append min_def)
  ultimately show ?thesis using False i s by (simp add: isna_NaN)
qed


lemma map_MACD_line_rows:
  assumes "calculate_technical_indicators ta_from_spec (Some cs) = Some rows"
  shows "map MACD_line rows = macd (map Close cs) 26 12"
proof -
  have "cs \<noteq> []" using assms by (auto simp: calculate_technical_indicators_spec)
  then show ?thesis
    using assms unfolding calculate_technical_indicators_spec
    by (auto intro!: nth_equalityI)
qed

text \<open>
  C6. With the package as the spec describes it, on a series whose closes are all defined,
  at every index: the MACD line is EMA12 minus
  EMA26 of the closes, the MACD signal is the EMA9 of the MACD line column, the histogram is
  the line minus the signal (each difference undefined when an operand is); EMA26 and the
  MACD line are undefined exactly below index 25, the signal and the histogram exactly below
  index 33.
\<close>

theorem macd_columns:
  assumes "calculate_technical_indicators ta_from_spec (Some cs) = Some rows"
    and "map Close cs = map Fin xs"
    and "i < length cs"
  shows "MACD_line (rows ! i) =
           fsub (ema_indicator (map Close cs) 12 ! i) (ema_indicator (map Close cs) 26 ! i) \<and>
         MACD_signal (rows ! i) = ema_indicator (map MACD_line rows) 9 ! i \<and>
         MACD_hist (rows ! i) = fsub (MACD_line (rows ! i)) (MACD_signal (rows ! i)) \<and>
         isna (ema_indicator (map Close cs) 26 ! i) = (i < 25) \<and>
         isna (MACD_line (rows ! i)) = (i < 25) \<and>
         isna (MACD_signal (rows ! i)) = (i < 33) \<and>
         isna (MACD_hist (rows ! i)) = (i < 33)"
proof -
  have ne: "cs \<noteq> []" using assms(3) by auto
  have len: "length xs = length cs" using assms(2) by (metis length_map)
  obtain rows' where r: "calculate_technical_indicators ta_from_spec (Some cs) = Some rows'"
    and f: "\<And>j. j < length cs \<Longrightarrow>
              MACD_line (rows' ! j) = macd (map Close cs) 26 12 ! j \<and>
              MACD_signal (rows' ! j) = macd_signal (map Close cs) 26 12 9 ! j \<and>
              MACD_hist (rows' ! j) = macd_diff (map Close cs) 26 12 9 ! j"
    using calculate_technical_indicators_rows [OF ne] by blast
  have rows: "rows' = rows" using r assms(1) by simp
  have i: "i < length (map Close cs)" "i < length xs" using assms(3) len by simp_all
  have l: "MACD_line (rows ! i) = macd (map Close cs) 26 12 ! i"
    and s: "MACD_signal (rows ! i) = macd_signal (map Close cs) 26 12 9 ! i"
    and h: "MACD_hist (rows ! i) = macd_diff (map Close cs) 26 12 9 ! i"
    using f [OF assms(3)] unfolding rows by simp_all
  have 1: "MACD_line (rows ! i) =
      fsub (ema_indicator (map Close cs) 12 ! i) (ema_indicator (map Close cs) 26 ! i)"
    unfolding l by (rule macd_nth [OF i(1)])
  have 2: "MACD_signal (rows ! i) = ema_indicator (map MACD_line rows) 9 ! i"
    unfolding s map_MACD_line_rows [OF assms(1)] macd_signal_def ..
  have 3: "MACD_hist (rows ! i) = fsub (MACD_line (rows ! i)) (MACD_signal (rows ! i))"
    unfolding h l s by (rule macd_diff_nth [OF i(1)])
  have 4: "isna (ema_indicator (map Close cs) 26 ! i) = (i < 25)"
    unfolding assms(2) using ema_indicator_defined_iff [of 26 i xs] i(2) by auto
  have 5: "isna (MACD_line (rows ! i)) = (i < 25)"
    unfolding l assms(2) using macd_defined_iff [of 12 26 i xs] i(2) by auto
  have 6: "isna (MACD_signal (rows ! i)) = (i < 33)"
    unfolding s assms(2) using macd_signal_defined_iff [of 12 26 9 i xs] i(2) by auto
  have 7: "isna (MACD_hist (rows ! i)) = (i < 33)"
    unfolding 3 using 5 6 by auto
  from 1 2 3 4 5 6 7 show ?thesis by blast
qed


theorem macd_columns_witness:
  "\<exists>rows. calculate_technical_indicators ta_from_spec (Some flat_series) = Some rows \<and>
      isna (MACD_line (rows ! 24)) \<and> \<not> isna (MACD_line (rows ! 25)) \<and>
      isna (MACD_signal (rows ! 32)) \<and> \<not> isna (MACD_signal (rows ! 33)) \<and>
      isna (MACD_hist (rows ! 32)) \<and> \<not> isna (MACD_hist (rows ! 33)) \<and>
      MACD_hist (rows ! 33) = fsub (MACD_line (rows ! 33)) (MACD_signal (rows ! 33))"
proof -
  have ne: "flat_series \<noteq> []" by (simp add: flat_series_def)
  obtain rows where r: "calculate_technical_indicators ta_from_spec (Some flat_series) = Some rows"
    using calculate_technical_indicators_rows [OF ne] by blast
  have cl: "map Close flat_series = map Fin (replicate 60 100)"
    by (simp add: flat_series_def example_candle_def map_replicate_const o_def)
  have l: "length flat_series = 60" by (simp add: flat_series_def)
  note d = macd_columns [OF r cl, THEN conjunct2, THEN conjunct2, THEN conjunct2]
  note h = macd_columns [OF r cl, THEN conjunct2, THEN conjunct2, THEN conjunct1]
  have "isna (MACD_line (rows ! 24))" "\<not> isna (MACD_line (rows ! 25))"
    "isna (MACD_signal (rows ! 32))" "\<not> isna (MACD_signal (rows ! 33))"
    "isna (MACD_hist (rows ! 32))" "\<not> isna (MACD_hist (rows ! 33))"
    using d [of 24] d [of 25] d [of 32] d [of 33] l by simp_all
  moreover have "MACD_hist (rows ! 33) = fsub (MACD_line (rows ! 33)) (MACD_signal (rows ! 33))"
    using h [of 33] l by simp
  ultimately show ?thesis using r by blast
qed

end
